theory Spec2Isabelle
  imports Complex_Main "HOL-Library.Word" "HOL-Library.AList"
begin

section \<open>The execution bridge of zone-wrap.cpp\<close>

text \<open>
  A shallow embedding of \<^verbatim>\<open>src/modules/napajs/node/zone-wrap.cpp\<close>: the
  functions \<^verbatim>\<open>ZoneWrap::NewCallback\<close>, \<^verbatim>\<open>Broadcast\<close>,
  \<^verbatim>\<open>BroadcastSync\<close>, \<^verbatim>\<open>Execute\<close>, \<^verbatim>\<open>ExecuteSync\<close>,
  \<^verbatim>\<open>CreateResponseObject\<close> and \<^verbatim>\<open>CreateRequestAndExecute\<close>.
  The functions are \<^verbatim>\<open>void\<close> callbacks of the scripting engine: they report an
  error by scheduling an exception on the isolate and returning, and they hand their
  result to the caller through the call's return-value slot. Both are fields of the
  state that the model passes along.
\<close>

subsection \<open>Values of the embedding runtime\<close>

text \<open>
  The values the code inspects with \<^verbatim>\<open>IsString\<close>, \<^verbatim>\<open>IsObject\<close> and
  \<^verbatim>\<open>IsFunction\<close>. An object carries its own properties in enumeration order;
  a function is known by an identifier.
\<close>

datatype js_value =
    Undefined
  | Null
  | Boolean bool
  | Number real
  | String string
  | Array "js_value list"
  | Function nat
  | Object "(string \<times> js_value) list"

fun IsString :: "js_value \<Rightarrow> bool" where
  "IsString (String s) = True"
| "IsString v = False"

fun IsFunction :: "js_value \<Rightarrow> bool" where
  "IsFunction (Function f) = True"
| "IsFunction v = False"

fun IsObject :: "js_value \<Rightarrow> bool" where
  "IsObject (Object ps) = True"
| "IsObject (Array vs) = True"
| "IsObject (Function f) = True"
| "IsObject v = False"

text \<open>
  \<^verbatim>\<open>v8::Object::Get\<close>: the lookup of a key the object has is its value, the
  lookup of a key the object lacks is \<^verbatim>\<open>undefined\<close>. The result is empty
  (\<open>None\<close>) only when the lookup itself throws, which it never does on the values of
  this model: their properties are data properties. Arrays and functions carry no named
  property here.
\<close>

fun Get :: "js_value \<Rightarrow> string \<Rightarrow> js_value option" where
  "Get (Object ps) k = Some (case map_of ps k of Some v \<Rightarrow> v | None \<Rightarrow> Undefined)"
| "Get v k = Some Undefined"

text \<open>
  \<^verbatim>\<open>CreateDataProperty\<close> defines an own property: the value of a key the object
  has is replaced where it stands, a new key is added after the others.
\<close>

fun CreateDataProperty :: "js_value \<Rightarrow> string \<Rightarrow> js_value \<Rightarrow> js_value" where
  "CreateDataProperty (Object ps) k v = Object (AList.update k v ps)"
| "CreateDataProperty obj k v = obj"

definition MakeV8String :: "string \<Rightarrow> js_value" where
  "MakeV8String s = String s"

definition String_Empty :: js_value where
  "String_Empty = String []"

definition Uint32_NewFromUnsigned :: "32 word \<Rightarrow> js_value" where
  "Uint32_NewFromUnsigned n = Number (real (unat n))"

text \<open>\<^verbatim>\<open>args[i]\<close>: the engine answers \<^verbatim>\<open>undefined\<close> beyond the arguments passed.\<close>

definition arg :: "js_value list \<Rightarrow> nat \<Rightarrow> js_value" where
  "arg args i = (if i < length args then args ! i else Undefined)"

subsection \<open>Errors and the isolate\<close>

text \<open>
  \<^verbatim>\<open>CHECK_ARG\<close> and \<^verbatim>\<open>JS_ASSERT\<close> are macros of napa/v8-helpers.h, which is
  not under src/. Modelled from the spec: when the condition fails, the message is
  raised as an error of the embedding runtime and the enclosing function returns at
  once; the spec calls the error of a failed argument check a validation error.
  \<open>SyntaxError\<close> is what the engine's structured-data parser raises on an input it
  rejects; \<open>FatalError\<close> is the engine stopping the process when \<^verbatim>\<open>FromJust\<close> is
  applied to an empty result.
\<close>

datatype error =
    ValidationError string
  | AssertionError string
  | SyntaxError string
  | FatalError string

record isolate =
  pending_exception :: "error option"
  json_parse_calls :: "string list"

definition ThrowException :: "error \<Rightarrow> isolate \<Rightarrow> isolate" where
  "ThrowException e st = st\<lparr>pending_exception := Some e\<rparr>"

text \<open>
  \<^verbatim>\<open>v8::JSON::Parse\<close>: the parser itself is the engine's and is a parameter
  (\<open>None\<close> is its empty result). A call is recorded on the isolate; a rejected input
  leaves a scheduled exception behind.
\<close>

definition JSON_Parse ::
  "(string \<Rightarrow> js_value option) \<Rightarrow> string \<Rightarrow> isolate \<Rightarrow> js_value option \<times> isolate" where
  "JSON_Parse parser str st =
     (let st1 = st\<lparr>json_parse_calls := json_parse_calls st @ [str]\<rparr>
      in case parser str of
           Some v \<Rightarrow> (Some v, st1)
         | None \<Rightarrow> (None, ThrowException (SyntaxError str) st1))"

text \<open>
  \<^verbatim>\<open>v8::TryCatch tryCatch;\<close> an exception raised while the handler is in scope is
  caught by it and, never rethrown, is gone when the scope ends.
\<close>

definition TryCatch :: "(isolate \<Rightarrow> 'a \<times> isolate) \<Rightarrow> isolate \<Rightarrow> 'a \<times> isolate" where
  "TryCatch body st =
     (case body st of
        (r, st1) \<Rightarrow> (r, st1\<lparr>pending_exception := pending_exception st\<rparr>))"

definition FromMaybe :: "'a option \<Rightarrow> 'a \<Rightarrow> 'a" where
  "FromMaybe m d = (case m of Some v \<Rightarrow> v | None \<Rightarrow> d)"

subsection \<open>Requests and responses\<close>

text \<open>
  \<^verbatim>\<open>NAPA_STRING_REF_WITH_SIZE(data, size)\<close> copies nothing: the request refers to
  characters that another object owns. \<open>StringRef s\<close> is a reference to the live
  characters \<open>s\<close>; \<open>Dangling\<close> is a reference whose owner has been destroyed.
\<close>

datatype StringRef =
    StringRef string
  | Dangling

text \<open>
  Modelled from the spec: \<^verbatim>\<open>napa::ExecuteRequest\<close> and
  \<^verbatim>\<open>napa::ExecuteResponse\<close> are declared in napa.h, which is not under src/. The
  spec's data model: a request has a module (left empty when absent), a function, an
  ordered sequence of arguments (empty by default) and an optional unsigned timeout; a
  response has an unsigned code, an error message and a return value.
\<close>

record ExecuteRequest =
  module :: StringRef
  function_name :: StringRef
  arguments :: "StringRef list"
  timeout :: "32 word option"

record ExecuteResponse =
  code :: "32 word"
  errorMessage :: string
  returnValue :: string

definition new_ExecuteRequest :: ExecuteRequest where
  "new_ExecuteRequest =
     \<lparr>module = StringRef [], function_name = StringRef [], arguments = [], timeout = None\<rparr>"

subsection \<open>CreateResponseObject\<close>

definition CreateResponseObject ::
  "(string \<Rightarrow> js_value option) \<Rightarrow> ExecuteResponse \<Rightarrow> isolate \<Rightarrow> js_value \<times> isolate" where
  "CreateResponseObject parser response st =
     (let responseObject = Object [];
          responseObject = CreateDataProperty responseObject ''code''
                             (Uint32_NewFromUnsigned (code response));
          responseObject = CreateDataProperty responseObject ''errorMessage''
                             (MakeV8String (errorMessage response));
          (rv, st1) =
            (if returnValue response = [] then (String_Empty, st)
             else
               (let rv0 = MakeV8String (returnValue response)
                in TryCatch (\<lambda>s. case JSON_Parse parser (returnValue response) s of
                                    (parsed, s1) \<Rightarrow> (FromMaybe parsed rv0, s1)) st))
      in (CreateDataProperty responseObject ''returnValue'' rv, st1))"

subsection \<open>What the code takes from outside src/\<close>

text \<open>
  The conversions of the scripting engine and of napa/v8-helpers.h, the numeric value of
  \<^verbatim>\<open>ConstructorType::CREATE\<close> (zone-wrap.h) and the blocking entry points of the
  external zone scheduler are parameters of the model:
  \<^item> \<open>JSON_parser\<close>: the parser behind \<^verbatim>\<open>v8::JSON::Parse\<close>;
  \<^item> \<open>Utf8String\<close>: the string form of a value;
  \<^item> \<open>V8ArrayToVector\<close>: the string forms of the elements of a sequence, in order;
  \<^item> \<open>Uint32Value\<close>: the conversion to an unsigned integer, empty when it fails;
  \<^item> \<open>V8ObjectToMap\<close>: the key/value pairs of a settings object, in the order in
    which the loop of \<^verbatim>\<open>NewCallback\<close> visits them;
  \<^item> \<open>ZoneProxy_ExecuteSync\<close>, \<open>ZoneProxy_BroadcastSync\<close>: what the scheduler
    answers to a blocking call.
\<close>

datatype ZoneProxy =
    CreateZone string string
  | GetZone string

record externals =
  JSON_parser :: "string \<Rightarrow> js_value option"
  Utf8String :: "js_value \<Rightarrow> string"
  V8ArrayToVector :: "js_value \<Rightarrow> string list"
  Uint32Value :: "js_value \<Rightarrow> 32 word option"
  V8ObjectToMap :: "js_value \<Rightarrow> (string \<times> string) list"
  ConstructorType_CREATE :: "32 word"
  ZoneProxy_ExecuteSync :: "ZoneProxy \<Rightarrow> ExecuteRequest \<Rightarrow> ExecuteResponse"
  ZoneProxy_BroadcastSync :: "ZoneProxy \<Rightarrow> string \<Rightarrow> 32 word"

text \<open>
  \<^verbatim>\<open>v8::String::Utf8Value\<close> of a value that \<^verbatim>\<open>IsString\<close>: its characters. The
  code applies it only after that check.
\<close>

fun Utf8Value :: "js_value \<Rightarrow> string" where
  "Utf8Value (String s) = s"
| "Utf8Value v = []"

subsection \<open>The completion handle and the state of the bridge\<close>

text \<open>
  Modelled from the spec: \<^verbatim>\<open>NodeAsyncHandler\<close> is declared in
  node-async-handler.h, which is not under src/. The spec's completion bridge:
  registering keeps the callback and a conversion function; dispatching a value
  converts it and asks the embedding thread to invoke the callback with the converted
  arguments at its next opportunity, so that the invocation is posted and not executed
  in place.
\<close>

record 't NodeAsyncHandler =
  callback :: js_value
  convert :: "'t \<Rightarrow> isolate \<Rightarrow> js_value list \<times> isolate"

definition NodeAsyncHandler_New ::
  "js_value \<Rightarrow> ('t \<Rightarrow> isolate \<Rightarrow> js_value list \<times> isolate) \<Rightarrow> 't NodeAsyncHandler" where
  "NodeAsyncHandler_New cb conv = \<lparr>callback = cb, convert = conv\<rparr>"

text \<open>
  The state: the isolate, the return-value slot of the running call, the zone handles
  constructed and the object each is bound to, the calls the scheduler has received,
  the invocations posted to the embedding thread and those it has carried out.
\<close>

record world =
  engine :: isolate
  return_value :: "js_value option"
  zone_proxies :: "ZoneProxy list"
  wrapped :: "(js_value \<times> ZoneProxy) list"
  zone_execute_calls :: "(ZoneProxy \<times> ExecuteRequest \<times> ExecuteResponse NodeAsyncHandler) list"
  zone_executeSync_calls :: "(ZoneProxy \<times> ExecuteRequest) list"
  zone_broadcast_calls :: "(ZoneProxy \<times> string \<times> (32 word) NodeAsyncHandler) list"
  zone_broadcastSync_calls :: "(ZoneProxy \<times> string) list"
  posted_tasks :: "(js_value \<times> js_value list) list"
  callback_invocations :: "(js_value \<times> js_value list) list"

definition throw :: "error \<Rightarrow> world \<Rightarrow> world" where
  "throw e w = w\<lparr>engine := ThrowException e (engine w)\<rparr>"

definition CHECK_ARG :: "bool \<Rightarrow> string \<Rightarrow> (world \<Rightarrow> world) \<Rightarrow> world \<Rightarrow> world" where
  "CHECK_ARG expression message rest w =
     (if expression then rest w else throw (ValidationError message) w)"

definition JS_ASSERT :: "bool \<Rightarrow> string \<Rightarrow> (world \<Rightarrow> world) \<Rightarrow> world \<Rightarrow> world" where
  "JS_ASSERT expression message rest w =
     (if expression then rest w else throw (AssertionError message) w)"

definition DispatchCallback :: "'t NodeAsyncHandler \<Rightarrow> 't \<Rightarrow> world \<Rightarrow> world" where
  "DispatchCallback handler v w =
     (case convert handler v (engine w) of
        (res, st1) \<Rightarrow>
          w\<lparr>engine := st1, posted_tasks := posted_tasks w @ [(callback handler, res)]\<rparr>)"

text \<open>The embedding thread, at its next opportunity, carries out what was posted.\<close>

definition RunPostedTasks :: "world \<Rightarrow> world" where
  "RunPostedTasks w =
     w\<lparr>callback_invocations := callback_invocations w @ posted_tasks w, posted_tasks := []\<rparr>"

text \<open>
  The asynchronous entry points of the scheduler keep the request and the completion
  closure for later. Each closure of the code captures its handler only, so the handler
  stands for the closure, and the closure's body is a function of its own below.
\<close>

definition ZoneProxy_Execute ::
  "ZoneProxy \<Rightarrow> ExecuteRequest \<Rightarrow> ExecuteResponse NodeAsyncHandler \<Rightarrow> world \<Rightarrow> world" where
  "ZoneProxy_Execute zone request handler w =
     w\<lparr>zone_execute_calls := zone_execute_calls w @ [(zone, request, handler)]\<rparr>"

definition ZoneProxy_Broadcast ::
  "ZoneProxy \<Rightarrow> string \<Rightarrow> (32 word) NodeAsyncHandler \<Rightarrow> world \<Rightarrow> world" where
  "ZoneProxy_Broadcast zone source handler w =
     w\<lparr>zone_broadcast_calls := zone_broadcast_calls w @ [(zone, source, handler)]\<rparr>"

definition Execute_completion :: "ExecuteResponse NodeAsyncHandler \<Rightarrow> ExecuteResponse \<Rightarrow> world \<Rightarrow> world" where
  "Execute_completion handler response w = DispatchCallback handler response w"

definition Broadcast_completion :: "(32 word) NodeAsyncHandler \<Rightarrow> 32 word \<Rightarrow> world \<Rightarrow> world" where
  "Broadcast_completion handler responseCode w = DispatchCallback handler responseCode w"

subsection \<open>CreateRequestAndExecute\<close>

text \<open>
  Lines 236 to 241: the vector \<^verbatim>\<open>arguments\<close> is local to the block of the
  \<^verbatim>\<open>if\<close>. The loop emplaces a reference to each of its strings, and the vector
  is destroyed where the block ends, before \<^verbatim>\<open>func(request)\<close> at line 253: the
  references emplaced from it, those after the first \<open>n\<close>, then have no owner. The
  strings \<^verbatim>\<open>module\<close> and \<^verbatim>\<open>function\<close> are declared in the body of the
  function and live until it returns.
\<close>

fun emplace_arguments :: "string list \<Rightarrow> ExecuteRequest \<Rightarrow> ExecuteRequest" where
  "emplace_arguments [] request = request"
| "emplace_arguments (a # rest) request =
     emplace_arguments rest (request\<lparr>arguments := arguments request @ [StringRef a]\<rparr>)"

definition destroy_arguments :: "nat \<Rightarrow> ExecuteRequest \<Rightarrow> ExecuteRequest" where
  "destroy_arguments n request =
     request\<lparr>arguments := take n (arguments request)
                            @ map (\<lambda>r. Dangling) (drop n (arguments request))\<rparr>"

definition CreateRequestAndExecute ::
  "externals \<Rightarrow> js_value \<Rightarrow> (ExecuteRequest \<Rightarrow> world \<Rightarrow> world) \<Rightarrow> world \<Rightarrow> world" where
  "CreateRequestAndExecute ext obj func w =
     (let request = new_ExecuteRequest;
          request = (case Get obj ''module'' of
                       Some v \<Rightarrow> request\<lparr>module := StringRef (Utf8String ext v)\<rparr>
                     | None \<Rightarrow> request)
      in case Get obj ''function'' of
           None \<Rightarrow> throw (ValidationError ''function property is missing in execution request object'') w
         | Some functionValue \<Rightarrow>
             CHECK_ARG (IsString functionValue)
               ''function property in execution request object must be a string''
               (\<lambda>w. let request = request\<lparr>function_name := StringRef (Utf8Value functionValue)\<rparr>;
                        request = (case Get obj ''arguments'' of
                                     Some v \<Rightarrow>
                                       destroy_arguments (length (arguments request))
                                         (emplace_arguments (V8ArrayToVector ext v) request)
                                   | None \<Rightarrow> request)
                    in case Get obj ''timeout'' of
                         None \<Rightarrow> func request w
                       | Some v \<Rightarrow>
                           (case Uint32Value ext v of
                              None \<Rightarrow> throw (FatalError ''FromJust'') w
                            | Some t \<Rightarrow> func (request\<lparr>timeout := Some t\<rparr>) w)) w)"

subsection \<open>The methods of ZoneWrap\<close>

definition Execute :: "externals \<Rightarrow> ZoneProxy \<Rightarrow> js_value list \<Rightarrow> world \<Rightarrow> world" where
  "Execute ext wrap args w =
     CHECK_ARG (IsObject (arg args 0))
       ''first argument to zone.execute must be the execution request object''
       (CHECK_ARG (IsFunction (arg args 1))
          ''second argument to zone.execute must be the callback''
          (\<lambda>w. let callback = arg args 1;
                   handler = NodeAsyncHandler_New callback
                     (\<lambda>response st.
                        case CreateResponseObject (JSON_parser ext) response st of
                          (obj, st1) \<Rightarrow> ([obj], st1))
               in CreateRequestAndExecute ext (arg args 0)
                    (\<lambda>request. ZoneProxy_Execute wrap request handler) w)) w"

definition ExecuteSync :: "externals \<Rightarrow> ZoneProxy \<Rightarrow> js_value list \<Rightarrow> world \<Rightarrow> world" where
  "ExecuteSync ext wrap args w =
     CHECK_ARG (IsObject (arg args 0))
       ''first argument to zone.execute must be the execution request object''
       (CreateRequestAndExecute ext (arg args 0)
          (\<lambda>request w.
             let response = ZoneProxy_ExecuteSync ext wrap request;
                 w = w\<lparr>zone_executeSync_calls := zone_executeSync_calls w @ [(wrap, request)]\<rparr>
             in case CreateResponseObject (JSON_parser ext) response (engine w) of
                  (obj, st1) \<Rightarrow> w\<lparr>engine := st1, return_value := Some obj\<rparr>)) w"

definition Broadcast :: "externals \<Rightarrow> ZoneProxy \<Rightarrow> js_value list \<Rightarrow> world \<Rightarrow> world" where
  "Broadcast ext wrap args w =
     CHECK_ARG (IsString (arg args 0))
       ''first argument to zone.broadcast must be the javascript source''
       (CHECK_ARG (IsFunction (arg args 1))
          ''second argument to zone.broadcast must be the callback''
          (\<lambda>w. let source = Utf8Value (arg args 0);
                   callback = arg args 1;
                   handler = NodeAsyncHandler_New callback
                     (\<lambda>responseCode st. ([Uint32_NewFromUnsigned responseCode], st))
               in ZoneProxy_Broadcast wrap source handler w)) w"

definition BroadcastSync :: "externals \<Rightarrow> ZoneProxy \<Rightarrow> js_value list \<Rightarrow> world \<Rightarrow> world" where
  "BroadcastSync ext wrap args w =
     CHECK_ARG (IsString (arg args 0))
       ''first argument to zone.broadcastSync must be the javascript source''
       (\<lambda>w. let source = Utf8Value (arg args 0);
                responseCode = ZoneProxy_BroadcastSync ext wrap source;
                w = w\<lparr>zone_broadcastSync_calls := zone_broadcastSync_calls w @ [(wrap, source)]\<rparr>
            in w\<lparr>return_value := Some (Uint32_NewFromUnsigned responseCode)\<rparr>) w"

subsection \<open>The constructor\<close>

fun settings_loop :: "(string \<times> string) list \<Rightarrow> string \<Rightarrow> string" where
  "settings_loop [] ss = ss"
| "settings_loop (kv # rest) ss = settings_loop rest (ss @ '' --'' @ fst kv @ '' '' @ snd kv)"

text \<open>Lines 90 to 93: the handle is wrapped and bound to the object under construction.\<close>

definition Wrap :: "ZoneProxy \<Rightarrow> js_value \<Rightarrow> world \<Rightarrow> world" where
  "Wrap zoneProxy this w =
     w\<lparr>zone_proxies := zone_proxies w @ [zoneProxy],
       wrapped := wrapped w @ [(this, zoneProxy)],
       return_value := Some this\<rparr>"

definition NewCallback :: "externals \<Rightarrow> bool \<Rightarrow> js_value \<Rightarrow> js_value list \<Rightarrow> world \<Rightarrow> world" where
  "NewCallback ext IsConstructCall this args w =
     JS_ASSERT IsConstructCall ''Only constructor call is allowed''
       (\<lambda>w. case Uint32Value ext (arg args 0) of
               None \<Rightarrow> throw (FatalError ''FromJust'') w
             | Some constructorType \<Rightarrow>
                 if constructorType = ConstructorType_CREATE ext then
                   CHECK_ARG (IsString (arg args 1))
                     ''first argument to createZone must be a string''
                     (\<lambda>w. let zoneId = Utf8Value (arg args 1);
                              ss = []
                          in if length args > 2 then
                               CHECK_ARG (IsObject (arg args 2))
                                 ''second argument to createZone must be an object''
                                 (\<lambda>w. let settingsMap = V8ObjectToMap ext (arg args 2);
                                          ss = settings_loop settingsMap ss
                                      in Wrap (CreateZone zoneId ss) this w) w
                             else Wrap (CreateZone zoneId ss) this w) w
                 else
                   CHECK_ARG (IsString (arg args 1))
                     ''first argument to getZone must be a string''
                     (\<lambda>w. let zoneId = Utf8Value (arg args 1)
                          in Wrap (GetZone zoneId) this w) w) w"

subsection \<open>A stub of the engine and of the scheduler, for the worked examples\<close>

text \<open>
  The stub answers for the values the examples use. The string form of
  \<^verbatim>\<open>undefined\<close> is the text "undefined" and its unsigned-integer form is 0, as in
  the engine; the parser knows the single text "42"; the scheduler answers every blocking
  call with success.
\<close>

definition stub :: externals where
  "stub =
     \<lparr>JSON_parser = (\<lambda>s. if s = ''42'' then Some (Number 42) else None),
      Utf8String = (\<lambda>v. case v of
                          String s \<Rightarrow> s
                        | Undefined \<Rightarrow> ''undefined''
                        | Null \<Rightarrow> ''null''
                        | Boolean b \<Rightarrow> (if b then ''true'' else ''false'')
                        | _ \<Rightarrow> []),
      V8ArrayToVector = (\<lambda>v. case v of Array vs \<Rightarrow> map Utf8Value vs | _ \<Rightarrow> []),
      Uint32Value = (\<lambda>v. case v of
                           Number n \<Rightarrow> Some (word_of_int (if n < 0 then - \<lfloor>- n\<rfloor> else \<lfloor>n\<rfloor>))
                         | Undefined \<Rightarrow> Some 0
                         | Null \<Rightarrow> Some 0
                         | Boolean b \<Rightarrow> Some (if b then 1 else 0)
                         | _ \<Rightarrow> None),
      V8ObjectToMap = (\<lambda>v. case v of Object ps \<Rightarrow> map (\<lambda>kv. (fst kv, Utf8Value (snd kv))) ps | _ \<Rightarrow> []),
      ConstructorType_CREATE = 0,
      ZoneProxy_ExecuteSync = (\<lambda>zone request. \<lparr>code = 0, errorMessage = [], returnValue = ''42''\<rparr>),
      ZoneProxy_BroadcastSync = (\<lambda>zone source. 0)\<rparr>"

definition isolate0 :: isolate where
  "isolate0 = \<lparr>pending_exception = None, json_parse_calls = []\<rparr>"

definition world0 :: world where
  "world0 =
     \<lparr>engine = isolate0, return_value = None, zone_proxies = [], wrapped = [],
      zone_execute_calls = [], zone_executeSync_calls = [], zone_broadcast_calls = [],
      zone_broadcastSync_calls = [], posted_tasks = [], callback_invocations = []\<rparr>"

section \<open>Properties\<close>

subsection \<open>Helper facts\<close>

lemma CreateResponseObject_nonempty:
  "returnValue response \<noteq> [] \<Longrightarrow>
   CreateResponseObject parser response st =
     (Object [(''code'', Number (real (unat (code response)))),
              (''errorMessage'', String (errorMessage response)),
              (''returnValue'', case parser (returnValue response) of
                                  Some v \<Rightarrow> v | None \<Rightarrow> String (returnValue response))],
      st\<lparr>json_parse_calls := json_parse_calls st @ [returnValue response]\<rparr>)"
  by (simp add: CreateResponseObject_def TryCatch_def JSON_Parse_def FromMaybe_def
      MakeV8String_def Uint32_NewFromUnsigned_def ThrowException_def Let_def
      split: option.split)

lemma CreateResponseObject_empty:
  "returnValue response = [] \<Longrightarrow>
   CreateResponseObject parser response st =
     (Object [(''code'', Number (real (unat (code response)))),
              (''errorMessage'', String (errorMessage response)),
              (''returnValue'', String [])],
      st)"
  by (simp add: CreateResponseObject_def String_Empty_def
      MakeV8String_def Uint32_NewFromUnsigned_def Let_def)

lemma CreateRequestAndExecute_not_string:
  "Get obj ''function'' = Some v \<Longrightarrow> \<not> IsString v \<Longrightarrow>
   CreateRequestAndExecute ext obj func w =
     throw (ValidationError ''function property in execution request object must be a string'') w"
  by (simp add: CreateRequestAndExecute_def CHECK_ARG_def Let_def split: option.split)

lemma Get_function_not_string:
  assumes "map_of ps ''function'' = None
           \<or> (\<exists>v. map_of ps ''function'' = Some v \<and> \<not> IsString v)"
  shows "\<exists>v. Get (Object ps) ''function'' = Some v \<and> \<not> IsString v"
  using assms by auto

lemma throw_frame:
  "pending_exception (engine (throw e w)) = Some e"
  "zone_execute_calls (throw e w) = zone_execute_calls w"
  "zone_executeSync_calls (throw e w) = zone_executeSync_calls w"
  "zone_proxies (throw e w) = zone_proxies w"
  "wrapped (throw e w) = wrapped w"
  "return_value (throw e w) = return_value w"
  by (simp_all add: throw_def ThrowException_def)

lemma settings_loop_concat:
  "settings_loop kvs ss = ss @ concat (map (\<lambda>kv. '' --'' @ fst kv @ '' '' @ snd kv) kvs)"
  by (induction kvs arbitrary: ss) simp_all

lemma ExecuteSync_not_string:
  assumes "arg args 0 = Object ps"
    and "map_of ps ''function'' = None
         \<or> (\<exists>v. map_of ps ''function'' = Some v \<and> \<not> IsString v)"
  shows "ExecuteSync ext wrap args w
           = throw (ValidationError ''function property in execution request object must be a string'') w"
proof -
  from Get_function_not_string [OF assms(2)]
  obtain v where v: "Get (Object ps) ''function'' = Some v" "\<not> IsString v" by blast
  show ?thesis
    by (simp add: ExecuteSync_def CHECK_ARG_def assms(1) CreateRequestAndExecute_not_string [OF v])
qed

lemma Execute_not_string:
  assumes "arg args 0 = Object ps"
    and "map_of ps ''function'' = None
         \<or> (\<exists>v. map_of ps ''function'' = Some v \<and> \<not> IsString v)"
  shows "Execute ext wrap args w
           = throw (ValidationError
               (if IsFunction (arg args 1)
                then ''function property in execution request object must be a string''
                else ''second argument to zone.execute must be the callback'')) w"
proof -
  from Get_function_not_string [OF assms(2)]
  obtain v where v: "Get (Object ps) ''function'' = Some v" "\<not> IsString v" by blast
  show ?thesis
    by (simp add: Execute_def CHECK_ARG_def Let_def assms(1) CreateRequestAndExecute_not_string [OF v])
qed

lemma emplace_arguments_append:
  "emplace_arguments as request
     = request\<lparr>arguments := arguments request @ map StringRef as\<rparr>"
  by (induction as arbitrary: request) simp_all

text \<open>
  What \<^verbatim>\<open>func\<close> receives for an object whose only key among the four is a string
  \<^verbatim>\<open>function\<close>: every lookup of an absent key yields \<^verbatim>\<open>undefined\<close>, so the
  three optional branches run on \<^verbatim>\<open>undefined\<close>.
\<close>

lemma CreateRequestAndExecute_function_only:
  assumes "map_of ps ''function'' = Some (String f)"
    and "map_of ps ''module'' = None"
    and "map_of ps ''arguments'' = None"
    and "map_of ps ''timeout'' = None"
    and "Uint32Value ext Undefined = Some t"
  shows "CreateRequestAndExecute ext (Object ps) func w
           = func \<lparr>module = StringRef (Utf8String ext Undefined),
                   function_name = StringRef f,
                   arguments = map (\<lambda>a. Dangling) (V8ArrayToVector ext Undefined),
                   timeout = Some t\<rparr> w"
  using assms
  by (simp add: CreateRequestAndExecute_def CHECK_ARG_def Let_def new_ExecuteRequest_def
      emplace_arguments_append destroy_arguments_def comp_def)

subsection \<open>Request building\<close>

text \<open>
  C2, as amended. For an \<^verbatim>\<open>execute\<close> or \<^verbatim>\<open>executeSync\<close> call whose input
  object lacks the \<^verbatim>\<open>function\<close> key or has a \<^verbatim>\<open>function\<close> value that is not a
  string, the call fails with a validation error that is pending when the call returns,
  neither entry point of the scheduler has been called, and \<^verbatim>\<open>executeSync\<close> has set
  no return value. When the \<^verbatim>\<open>function\<close> value is present and not a string, the
  message is "function property in execution request object must be a string" (for
  \<^verbatim>\<open>execute\<close>, when its second argument is a callback, which it checks first).
\<close>

theorem function_property_checked:
  assumes "arg args 0 = Object ps"
    and "map_of ps ''function'' = None
         \<or> (\<exists>v. map_of ps ''function'' = Some v \<and> \<not> IsString v)"
  shows "(\<exists>message. pending_exception (engine (ExecuteSync ext wrap args w))
                      = Some (ValidationError message))
       \<and> (\<exists>message. pending_exception (engine (Execute ext wrap args w))
                      = Some (ValidationError message))
       \<and> zone_execute_calls (ExecuteSync ext wrap args w) = zone_execute_calls w
       \<and> zone_executeSync_calls (ExecuteSync ext wrap args w) = zone_executeSync_calls w
       \<and> return_value (ExecuteSync ext wrap args w) = return_value w
       \<and> zone_execute_calls (Execute ext wrap args w) = zone_execute_calls w
       \<and> zone_executeSync_calls (Execute ext wrap args w) = zone_executeSync_calls w
       \<and> ((\<exists>v. map_of ps ''function'' = Some v \<and> \<not> IsString v) \<longrightarrow>
            pending_exception (engine (ExecuteSync ext wrap args w))
              = Some (ValidationError ''function property in execution request object must be a string'')
          \<and> (IsFunction (arg args 1) \<longrightarrow>
               pending_exception (engine (Execute ext wrap args w))
                 = Some (ValidationError ''function property in execution request object must be a string'')))"
  by (simp add: ExecuteSync_not_string [OF assms] Execute_not_string [OF assms] throw_frame)

theorem function_property_checked_witness:
  "pending_exception (engine (ExecuteSync stub (GetZone ''z1'')
       [Object [(''function'', Number 5)]] world0))
     = Some (ValidationError ''function property in execution request object must be a string'')
   \<and> zone_executeSync_calls (ExecuteSync stub (GetZone ''z1'')
       [Object [(''function'', Number 5)]] world0) = []
   \<and> pending_exception (engine (Execute stub (GetZone ''z1'')
       [Object [(''function'', Number 5)], Function 1] world0))
     = Some (ValidationError ''function property in execution request object must be a string'')
   \<and> zone_execute_calls (Execute stub (GetZone ''z1'')
       [Object [(''function'', Number 5)], Function 1] world0) = []
   \<and> (\<exists>message. pending_exception (engine (ExecuteSync stub (GetZone ''z1'')
       [Object [(''module'', String ''m'')]] world0)) = Some (ValidationError message))
   \<and> zone_executeSync_calls (ExecuteSync stub (GetZone ''z1'')
       [Object [(''module'', String ''m'')]] world0) = []"
  using function_property_checked
          [of "[Object [(''function'', Number 5)]]" "[(''function'', Number 5)]"
              stub "GetZone ''z1''" world0]
        function_property_checked
          [of "[Object [(''function'', Number 5)], Function 1]" "[(''function'', Number 5)]"
              stub "GetZone ''z1''" world0]
        function_property_checked
          [of "[Object [(''module'', String ''m'')]]" "[(''module'', String ''m'')]"
              stub "GetZone ''z1''" world0]
  by (simp add: arg_def world0_def)

text \<open>
  The claim C2 as the spec words it fails: for a \<^verbatim>\<open>function\<close> that is the number 5
  the message is not "function property is missing or not a string".
\<close>

theorem function_message_counterexample:
  "pending_exception (engine (ExecuteSync stub (GetZone ''z1'')
       [Object [(''function'', Number 5)]] world0))
     \<noteq> Some (ValidationError ''function property is missing or not a string'')"
  by (simp add: ExecuteSync_def CHECK_ARG_def arg_def CreateRequestAndExecute_def Let_def
      throw_def ThrowException_def new_ExecuteRequest_def stub_def)

text \<open>
  C6, the code at the failing input. For the input object with the single property
  \<^verbatim>\<open>function\<close> = "foo", the request that \<^verbatim>\<open>executeSync\<close> hands to the
  scheduler has the function "foo", but its module is the string form of
  \<^verbatim>\<open>undefined\<close> and its timeout is set, to the unsigned-integer form of
  \<^verbatim>\<open>undefined\<close>: the branches guarded by \<^verbatim>\<open>!maybe.IsEmpty()\<close> run although
  the keys are absent.
\<close>

theorem function_only_request:
  "zone_executeSync_calls
     (ExecuteSync stub (GetZone ''z1'') [Object [(''function'', String ''foo'')]] world0)
     = [(GetZone ''z1'',
         \<lparr>module = StringRef ''undefined'', function_name = StringRef ''foo'',
          arguments = [], timeout = Some 0\<rparr>)]"
  using CreateRequestAndExecute_function_only
          [of "[(''function'', String ''foo'')]" "''foo''" stub 0]
  by (simp add: ExecuteSync_def CHECK_ARG_def arg_def Let_def stub_def world0_def
      split: prod.split)

subsection \<open>Response decoding\<close>

text \<open>
  C3. For a response with a non-empty \<^verbatim>\<open>returnValue\<close>: when the parser accepts it
  as the value V, the \<^verbatim>\<open>returnValue\<close> property of the response object is V; when
  the parser rejects it, the property is the raw string unchanged; and in either case no
  exception is pending after the call that was not pending before it.
\<close>

theorem returnValue_parsed_or_raw:
  assumes "returnValue response \<noteq> []"
  shows "(\<forall>V. parser (returnValue response) = Some V \<longrightarrow>
            Get (fst (CreateResponseObject parser response st)) ''returnValue'' = Some V)
       \<and> (parser (returnValue response) = None \<longrightarrow>
            Get (fst (CreateResponseObject parser response st)) ''returnValue''
              = Some (String (returnValue response)))
       \<and> pending_exception (snd (CreateResponseObject parser response st)) = pending_exception st"
  using assms by (simp add: CreateResponseObject_nonempty)

theorem returnValue_parsed_or_raw_witness:
  "Get (fst (CreateResponseObject (JSON_parser stub)
        \<lparr>code = 0, errorMessage = [], returnValue = ''42''\<rparr> isolate0)) ''returnValue''
     = Some (Number 42)
   \<and> Get (fst (CreateResponseObject (JSON_parser stub)
        \<lparr>code = 0, errorMessage = [], returnValue = ''not json{{''\<rparr> isolate0)) ''returnValue''
     = Some (String ''not json{{'')
   \<and> pending_exception (snd (CreateResponseObject (JSON_parser stub)
        \<lparr>code = 0, errorMessage = [], returnValue = ''not json{{''\<rparr> isolate0)) = None"
  using returnValue_parsed_or_raw
          [of "\<lparr>code = 0, errorMessage = [], returnValue = ''42''\<rparr>" "JSON_parser stub" isolate0]
        returnValue_parsed_or_raw
          [of "\<lparr>code = 0, errorMessage = [], returnValue = ''not json{{''\<rparr>" "JSON_parser stub" isolate0]
  by (simp add: stub_def isolate0_def)

text \<open>
  C4. For a response whose \<^verbatim>\<open>returnValue\<close> is the empty string, the
  \<^verbatim>\<open>returnValue\<close> property of the response object is the empty string and the
  parser has not been called: the isolate, with its record of parser calls, is as it was.
\<close>

theorem empty_returnValue_not_parsed:
  assumes "returnValue response = []"
  shows "Get (fst (CreateResponseObject parser response st)) ''returnValue'' = Some (String [])
       \<and> json_parse_calls (snd (CreateResponseObject parser response st)) = json_parse_calls st
       \<and> snd (CreateResponseObject parser response st) = st"
  using assms by (simp add: CreateResponseObject_empty)

theorem empty_returnValue_not_parsed_witness:
  "Get (fst (CreateResponseObject (JSON_parser stub)
        \<lparr>code = 1, errorMessage = ''boom'', returnValue = []\<rparr> isolate0)) ''returnValue''
     = Some (String [])
   \<and> json_parse_calls (snd (CreateResponseObject (JSON_parser stub)
        \<lparr>code = 1, errorMessage = ''boom'', returnValue = []\<rparr> isolate0)) = []"
  using empty_returnValue_not_parsed
          [of "\<lparr>code = 1, errorMessage = ''boom'', returnValue = []\<rparr>" "JSON_parser stub" isolate0]
  by (simp add: isolate0_def)

text \<open>
  C7. For every response, whatever its \<^verbatim>\<open>returnValue\<close> and whatever the parser
  does with it, the \<^verbatim>\<open>code\<close> property of the response object is the unsigned
  value of the response's code and the \<^verbatim>\<open>errorMessage\<close> property is the response's
  error message.
\<close>

theorem code_and_errorMessage_verbatim:
  "Get (fst (CreateResponseObject parser response st)) ''code''
     = Some (Number (real (unat (code response))))
   \<and> Get (fst (CreateResponseObject parser response st)) ''errorMessage''
     = Some (String (errorMessage response))"
  by (cases "returnValue response = []")
     (simp_all add: CreateResponseObject_nonempty CreateResponseObject_empty)

text \<open>
  C9. The response object has exactly three properties, in this order:
  \<^verbatim>\<open>code\<close>, \<^verbatim>\<open>errorMessage\<close> and \<^verbatim>\<open>returnValue\<close>.
\<close>

theorem response_object_three_properties:
  "\<exists>c e v. fst (CreateResponseObject parser response st)
     = Object [(''code'', c), (''errorMessage'', e), (''returnValue'', v)]"
  by (cases "returnValue response = []")
     (simp_all add: CreateResponseObject_nonempty CreateResponseObject_empty)

subsection \<open>Zone construction\<close>

text \<open>
  C8. A call of the constructor that is not a construct call fails with the assertion
  "Only constructor call is allowed": that error is pending, no zone handle has been
  constructed, none is bound to an object, and no return value is set.
\<close>

theorem plain_call_rejected:
  "NewCallback ext False this args w
     = throw (AssertionError ''Only constructor call is allowed'') w
   \<and> pending_exception (engine (NewCallback ext False this args w))
       = Some (AssertionError ''Only constructor call is allowed'')
   \<and> zone_proxies (NewCallback ext False this args w) = zone_proxies w
   \<and> wrapped (NewCallback ext False this args w) = wrapped w
   \<and> return_value (NewCallback ext False this args w) = return_value w"
  by (simp add: NewCallback_def JS_ASSERT_def throw_frame)

subsection \<open>Broadcast\<close>

text \<open>
  C10. A \<^verbatim>\<open>broadcast\<close> call with a source string and a callback hands the
  scheduler a completion whose handler, for every response code, posts the invocation
  of that callback with exactly one argument, the code as an unsigned number; the
  completion itself invokes nothing, and the embedding thread then carries out the
  invocation. A \<^verbatim>\<open>broadcastSync\<close> call with a source string, with or without
  further arguments, calls the scheduler once and returns its code as an unsigned
  number.
\<close>

theorem broadcast_code_unsigned:
  assumes "IsString (arg args 0)"
  shows "(IsFunction (arg args 1) \<longrightarrow>
           (\<exists>handler.
              zone_broadcast_calls (Broadcast ext wrap args w)
                = zone_broadcast_calls w @ [(wrap, Utf8Value (arg args 0), handler)]
            \<and> (\<forall>responseCode w1.
                 posted_tasks (Broadcast_completion handler responseCode w1)
                   = posted_tasks w1 @ [(arg args 1, [Number (real (unat responseCode))])]
               \<and> callback_invocations (Broadcast_completion handler responseCode w1)
                   = callback_invocations w1
               \<and> callback_invocations (RunPostedTasks (Broadcast_completion handler responseCode w1))
                   = callback_invocations w1 @ posted_tasks w1
                     @ [(arg args 1, [Number (real (unat responseCode))])])))
       \<and> return_value (BroadcastSync ext wrap args w)
           = Some (Number (real (unat (ZoneProxy_BroadcastSync ext wrap (Utf8Value (arg args 0))))))
       \<and> zone_broadcastSync_calls (BroadcastSync ext wrap args w)
           = zone_broadcastSync_calls w @ [(wrap, Utf8Value (arg args 0))]"
  using assms
  by (simp add: Broadcast_def BroadcastSync_def CHECK_ARG_def Let_def ZoneProxy_Broadcast_def
      Broadcast_completion_def DispatchCallback_def NodeAsyncHandler_New_def RunPostedTasks_def
      Uint32_NewFromUnsigned_def)

theorem broadcast_code_unsigned_witness:
  "(\<exists>handler.
     zone_broadcast_calls (Broadcast stub (GetZone ''z1'') [String ''f()'', Function 7] world0)
       = [(GetZone ''z1'', ''f()'', handler)]
   \<and> callback_invocations (RunPostedTasks (Broadcast_completion handler 3 world0))
       = [(Function 7, [Number 3])])
   \<and> return_value (BroadcastSync stub (GetZone ''z1'') [String ''f()''] world0)
       = Some (Number 0)"
proof -
  have a: "IsString (arg [String ''f()'', Function 7] 0)"
    and b: "IsFunction (arg [String ''f()'', Function 7] 1)"
    and c: "IsString (arg [String ''f()''] 0)"
    by (simp_all add: arg_def)
  from broadcast_code_unsigned [OF a, of stub "GetZone ''z1''" world0] b
  obtain handler where
    h1: "zone_broadcast_calls (Broadcast stub (GetZone ''z1'') [String ''f()'', Function 7] world0)
           = zone_broadcast_calls world0
             @ [(GetZone ''z1'', Utf8Value (arg [String ''f()'', Function 7] 0), handler)]"
    and h2: "\<And>responseCode w1.
           callback_invocations (RunPostedTasks (Broadcast_completion handler responseCode w1))
             = callback_invocations w1 @ posted_tasks w1
               @ [(arg [String ''f()'', Function 7] 1, [Number (real (unat responseCode))])]"
    by blast
  have "zone_broadcast_calls (Broadcast stub (GetZone ''z1'') [String ''f()'', Function 7] world0)
          = [(GetZone ''z1'', ''f()'', handler)]"
    using h1 by (simp add: arg_def world0_def)
  moreover have "callback_invocations (RunPostedTasks (Broadcast_completion handler 3 world0))
          = [(Function 7, [Number 3])]"
    using h2 [of 3 world0] by (simp add: arg_def world0_def)
  moreover have "return_value (BroadcastSync stub (GetZone ''z1'') [String ''f()''] world0)
          = Some (Number 0)"
    using broadcast_code_unsigned [OF c, of stub "GetZone ''z1''" world0]
    by (simp add: stub_def)
  ultimately show ?thesis by blast
qed

end
